theory Spec2Isabelle
  imports Main "HOL-Library.Word"
begin

unbundle bit_operations_syntax

section \<open>Memory model\<close>

text \<open>
  A shallow embedding of \<^verbatim>\<open>lib/tlcl/tlcl_hmac.c\<close>.

  A C pointer to bytes is modelled by the object it points to: \<open>None\<close> is \<open>NULL\<close>, and
  \<open>Some bs\<close> is a pointer to the first byte of an object holding exactly the bytes \<open>bs\<close>.
  Reading through \<open>NULL\<close>, or reading bytes that are not all inside the object, is
  undefined behaviour in C; the model makes it a value (\<open>Inl\<close> of a \<open>fault\<close>), so that a
  theorem saying a call returns a code also says it performed no such access.
\<close>

type_synonym byte = "8 word"

type_synonym ptr = "byte list option"

datatype fault = NullDeref | OutOfBounds | BadVaArg

text \<open>
  Modelled from the spec: the return codes are macros of \<^verbatim>\<open>tlcl.h\<close>, which is not among
  the sources. The spec's results Ok, NullArgument and HmacFailure are three different
  values; only that is used of them.
\<close>

datatype tpm_rc = TPM_SUCCESS | TPM_E_NULL_ARG | TPM_E_HMAC_FAIL

text \<open>One argument of a C variadic argument list: a \<^verbatim>\<open>uint32_t\<close> or a byte pointer.\<close>

datatype va_item = VaU32 "32 word" | VaPtr ptr

text \<open>Sequencing of steps that can fault: the first fault ends the call.\<close>

definition seq :: "fault + 'a \<Rightarrow> ('a \<Rightarrow> fault + 'b) \<Rightarrow> fault + 'b" where
  "seq m f = (case m of Inl e \<Rightarrow> Inl e | Inr x \<Rightarrow> f x)"

text \<open>
  \<open>read_bytes p pos n\<close>: the \<open>n\<close> bytes at \<^verbatim>\<open>p + pos\<close>. The position is an integer, since
  the source computes it as \<^verbatim>\<open>response + size - offset\<close>, which lies before the object
  when \<open>size < offset\<close>. Only the bytes that are read are checked against the object, not
  the pointer values computed on the way.
\<close>

definition read_bytes :: "ptr \<Rightarrow> int \<Rightarrow> nat \<Rightarrow> fault + byte list" where
  "read_bytes p pos n =
     (case p of
        None \<Rightarrow> Inl NullDeref
      | Some buf \<Rightarrow>
          if 0 \<le> pos \<and> nat pos + n \<le> length buf
          then Inr (take n (drop (nat pos) buf))
          else Inl OutOfBounds)"

text \<open>\<open>write_bytes p bs\<close>: store \<open>bs\<close> at the start of the object; the object after the call.\<close>

definition write_bytes :: "ptr \<Rightarrow> byte list \<Rightarrow> fault + byte list" where
  "write_bytes p bs =
     (case p of
        None \<Rightarrow> Inl NullDeref
      | Some buf \<Rightarrow>
          if length bs \<le> length buf
          then Inr (bs @ drop (length bs) buf)
          else Inl OutOfBounds)"

section \<open>Constants and helpers of the surrounding library\<close>

text \<open>
  The sizes are macros of \<^verbatim>\<open>tlcl_internal.h\<close>, and the packing of integers is done by
  helpers of that header; it is not among the sources.
\<close>

text \<open>Modelled from the spec: the macro \<^verbatim>\<open>TPM_U16_SIZE\<close>; the tag has 2 bytes (section 6).\<close>

definition TPM_U16_SIZE :: nat where "TPM_U16_SIZE = 2"

text \<open>
  Modelled from the spec: the macro \<^verbatim>\<open>TPM_U32_SIZE\<close>; the total size and the return code
  have 4 bytes (section 6).
\<close>

definition TPM_U32_SIZE :: nat where "TPM_U32_SIZE = 4"

text \<open>Modelled from the spec: the macro \<^verbatim>\<open>TPM_HASH_SIZE\<close>; digest size 20 (section 8).\<close>

definition TPM_HASH_SIZE :: nat where "TPM_HASH_SIZE = 20"

text \<open>Modelled from the spec: the macro \<^verbatim>\<open>TPM_NONCE_SIZE\<close>; nonce size 20 (section 8).\<close>

definition TPM_NONCE_SIZE :: nat where "TPM_NONCE_SIZE = 20"

text \<open>
  Modelled from the spec: the helper \<^verbatim>\<open>FromTpmUint16\<close>, big-endian decoding (sections 1
  and 6), applied to the bytes read at the pointer.
\<close>

fun FromTpmUint16 :: "byte list \<Rightarrow> 16 word" where
  "FromTpmUint16 (b0 # b1 # _) = push_bit 8 (ucast b0) OR ucast b1"
| "FromTpmUint16 _ = 0"

text \<open>Modelled from the spec: the helper \<^verbatim>\<open>FromTpmUint32\<close>, big-endian decoding.\<close>

fun FromTpmUint32 :: "byte list \<Rightarrow> 32 word" where
  "FromTpmUint32 (b0 # b1 # b2 # b3 # _) =
     push_bit 24 (ucast b0) OR push_bit 16 (ucast b1) OR push_bit 8 (ucast b2) OR ucast b3"
| "FromTpmUint32 _ = 0"

text \<open>
  Modelled from the spec: the helper \<^verbatim>\<open>ToTpmUint32\<close>, the 4 big-endian bytes of a value
  (section 4.1).
\<close>

definition ToTpmUint32 :: "32 word \<Rightarrow> byte list" where
  "ToTpmUint32 x = [ucast (drop_bit 24 x), ucast (drop_bit 16 x), ucast (drop_bit 8 x), ucast x]"

text \<open>
  What the file takes from outside: the SHA-1 and HMAC-SHA-1 primitives (\<^verbatim>\<open>sha1.h\<close>), as
  functions from the bytes fed in to the digest, and the three response tags (\<^verbatim>\<open>tlcl.h\<close>),
  whose values the spec does not give. They are parameters of the model.
\<close>

record tpm_env =
  sha1 :: "byte list \<Rightarrow> byte list"
  hmac :: "byte list \<Rightarrow> byte list \<Rightarrow> byte list"
  TPM_TAG_RSP_COMMAND :: "16 word"
  TPM_TAG_RSP_AUTH1_COMMAND :: "16 word"
  TPM_TAG_RSP_AUTH2_COMMAND :: "16 word"

text \<open>
  The incremental interface: a context holds the bytes fed in so far, and finishing
  applies the primitive to them. \<open>hmac_starts\<close> and \<open>hmac_finish\<close> both read
  \<open>keySize\<close> bytes through the key pointer.
\<close>

definition sha1_starts :: "byte list" where
  "sha1_starts = []"

definition sha1_update :: "byte list \<Rightarrow> byte list \<Rightarrow> byte list" where
  "sha1_update ctx bs = ctx @ bs"

definition sha1_finish :: "tpm_env \<Rightarrow> byte list \<Rightarrow> byte list" where
  "sha1_finish env ctx = sha1 env ctx"

definition hmac_starts :: "ptr \<Rightarrow> 32 word \<Rightarrow> fault + byte list" where
  "hmac_starts key keySize = seq (read_bytes key 0 (unat keySize)) (\<lambda>_. Inr [])"

definition hmac_update :: "byte list \<Rightarrow> byte list \<Rightarrow> byte list" where
  "hmac_update ctx bs = ctx @ bs"

definition hmac_finish :: "tpm_env \<Rightarrow> byte list \<Rightarrow> ptr \<Rightarrow> 32 word \<Rightarrow> fault + byte list" where
  "hmac_finish env ctx key keySize =
     seq (read_bytes key 0 (unat keySize)) (\<lambda>k. Inr (hmac env k ctx))"

section \<open>TSS_CheckHMAC\<close>

text \<open>
  The loop over the variadic arguments (lines 69 to 74): a size, and unless it is zero a
  position; the bytes at \<^verbatim>\<open>response + arg_pos\<close> are fed to the hash. Taking an
  argument the caller did not pass, or one of another type, is undefined behaviour.
\<close>

fun check_args_loop :: "ptr \<Rightarrow> byte list \<Rightarrow> va_item list \<Rightarrow> fault + byte list" where
  "check_args_loop response ctx (VaU32 arg_size # argp) =
     (if arg_size = 0 then Inr ctx
      else case argp of
        VaU32 arg_pos # argp' \<Rightarrow>
          seq (read_bytes response (uint arg_pos) (unat arg_size))
            (\<lambda>bs. check_args_loop response (sha1_update ctx bs) argp')
      | _ \<Rightarrow> Inl BadVaArg)"
| "check_args_loop response ctx _ = Inl BadVaArg"

text \<open>
  One authorization block (lines 88 to 98, and again lines 103 to 113): whether the HMAC
  computed over the parameter digest, the even nonce of the trailer, the odd nonce and
  the continue flag equals the HMAC embedded in the trailer. The arrays \<^verbatim>\<open>paramDigest\<close>
  and \<^verbatim>\<open>authHmac\<close> hold what the primitive returned, a digest of \<open>TPM_HASH_SIZE\<close> bytes.
  The source's variable \<^verbatim>\<open>size\<close> is \<open>size'\<close> here.
\<close>

definition check_auth_block ::
  "tpm_env \<Rightarrow> ptr \<Rightarrow> 32 word \<Rightarrow> 32 word \<Rightarrow> ptr \<Rightarrow> ptr \<Rightarrow> 32 word \<Rightarrow> byte list \<Rightarrow> fault + bool" where
  "check_auth_block env response size' offset nonceOdd key keySize paramDigest =
     seq (hmac_starts key keySize) (\<lambda>ctx.
     let ctx = hmac_update ctx paramDigest in
     seq (read_bytes response (uint size' - uint offset) TPM_NONCE_SIZE) (\<lambda>even.
     let ctx = hmac_update ctx even in
     seq (read_bytes nonceOdd 0 TPM_NONCE_SIZE) (\<lambda>odd.
     let ctx = hmac_update ctx odd in
     seq (read_bytes response (uint size' - uint offset + int TPM_NONCE_SIZE) 1) (\<lambda>cont.
     let ctx = hmac_update ctx cont in
     seq (hmac_finish env ctx key keySize) (\<lambda>authHmac.
     seq (read_bytes response (uint size' - uint offset + int TPM_NONCE_SIZE + 1) TPM_HASH_SIZE)
       (\<lambda>embedded. Inr (authHmac = embedded)))))))"

definition TSS_CheckHMAC ::
  "tpm_env \<Rightarrow> ptr \<Rightarrow> 32 word \<Rightarrow> ptr \<Rightarrow> ptr \<Rightarrow> 32 word \<Rightarrow> ptr \<Rightarrow> 32 word \<Rightarrow> va_item list
     \<Rightarrow> fault + tpm_rc" where
  "TSS_CheckHMAC env response command nonceOdd key keySize key2 keySize2 argp =
     seq (read_bytes response 0 TPM_U16_SIZE) (\<lambda>tag_bytes.
     seq (read_bytes response (int TPM_U16_SIZE) TPM_U32_SIZE) (\<lambda>size_bytes.
     let tag = FromTpmUint16 tag_bytes;
         size' = FromTpmUint32 size_bytes;
         ordinal = ToTpmUint32 command
     in
     if tag = TPM_TAG_RSP_COMMAND env then Inr TPM_SUCCESS
     else if response = None \<or> nonceOdd = None \<or> key = None then Inr TPM_E_NULL_ARG
     else if tag \<noteq> TPM_TAG_RSP_AUTH1_COMMAND env \<and> tag \<noteq> TPM_TAG_RSP_AUTH2_COMMAND env
       then Inr TPM_E_HMAC_FAIL
     else if tag = TPM_TAG_RSP_AUTH2_COMMAND env \<and> key2 = None then Inr TPM_E_NULL_ARG
     else
       seq (read_bytes response (int (TPM_U16_SIZE + TPM_U32_SIZE)) TPM_U32_SIZE) (\<lambda>rc_bytes.
       let ctx = sha1_update (sha1_update sha1_starts rc_bytes) ordinal in
       seq (check_args_loop response ctx argp) (\<lambda>ctx.
       let paramDigest = sha1_finish env ctx;
           offset = word_of_nat (TPM_NONCE_SIZE + 1 + TPM_HASH_SIZE);
           offset = (if tag = TPM_TAG_RSP_AUTH2_COMMAND env then offset * 2 else offset)
       in
       seq (check_auth_block env response size' offset nonceOdd key keySize paramDigest) (\<lambda>ok.
       if \<not> ok then Inr TPM_E_HMAC_FAIL
       else if tag = TPM_TAG_RSP_AUTH2_COMMAND env then
         let offset = offset div 2 in
         seq (check_auth_block env response size' offset nonceOdd key2 keySize2 paramDigest) (\<lambda>ok2.
         if \<not> ok2 then Inr TPM_E_HMAC_FAIL else Inr TPM_SUCCESS)
       else Inr TPM_SUCCESS)))))"

section \<open>TSS_AuthHMAC\<close>

text \<open>
  The loop over the variadic arguments (lines 137 to 144): a size, and unless it is zero a
  data pointer; a null data pointer ends the call with \<open>TPM_E_NULL_ARG\<close> (the loop
  gives the code to return, rather than a context), otherwise \<open>arg_size\<close> bytes at the
  pointer are fed to the hash.
\<close>

fun auth_args_loop :: "byte list \<Rightarrow> va_item list \<Rightarrow> fault + (tpm_rc + byte list)" where
  "auth_args_loop ctx (VaU32 arg_size # argp) =
     (if arg_size = 0 then Inr (Inr ctx)
      else case argp of
        VaPtr arg_data # argp' \<Rightarrow>
          if arg_data = None then Inr (Inl TPM_E_NULL_ARG)
          else seq (read_bytes arg_data 0 (unat arg_size))
                 (\<lambda>bs. auth_args_loop (sha1_update ctx bs) argp')
      | _ \<Rightarrow> Inl BadVaArg)"
| "auth_args_loop ctx _ = Inl BadVaArg"

text \<open>
  The result is the returned code together with the caller's \<^verbatim>\<open>digest\<close> object as the
  call leaves it.
\<close>

definition TSS_AuthHMAC ::
  "tpm_env \<Rightarrow> ptr \<Rightarrow> ptr \<Rightarrow> 32 word \<Rightarrow> ptr \<Rightarrow> ptr \<Rightarrow> byte \<Rightarrow> va_item list
     \<Rightarrow> fault + (tpm_rc \<times> ptr)" where
  "TSS_AuthHMAC env digest key keySize nonce1 nonce2 authBool argp =
     (if nonce1 = None \<or> nonce2 = None then Inr (TPM_E_NULL_ARG, digest)
      else
        seq (auth_args_loop sha1_starts argp) (\<lambda>r.
        case r of
          Inl rc \<Rightarrow> Inr (rc, digest)
        | Inr ctx \<Rightarrow>
            let paramDigest = sha1_finish env ctx in
            seq (hmac_starts key keySize) (\<lambda>ctx.
            let ctx = hmac_update ctx paramDigest in
            seq (read_bytes nonce1 0 TPM_NONCE_SIZE) (\<lambda>n1.
            let ctx = hmac_update ctx n1 in
            seq (read_bytes nonce2 0 TPM_NONCE_SIZE) (\<lambda>n2.
            let ctx = hmac_update ctx n2;
                ctx = hmac_update ctx [authBool]
            in
            seq (hmac_finish env ctx key keySize) (\<lambda>d.
            seq (write_bytes digest d) (\<lambda>digest'. Inr (TPM_SUCCESS, Some digest'))))))))"

section \<open>Call sites and the vocabulary of the properties\<close>

text \<open>
  A call of \<open>TSS_CheckHMAC\<close> that selects the ranges \<open>rs\<close> (each a size and a position)
  passes \<open>range_args rs\<close>, then the zero sentinel. A call of \<open>TSS_AuthHMAC\<close> that selects
  the data \<open>ds\<close> (each a size and a pointer) passes \<open>data_args ds\<close>, then the sentinel.
\<close>

definition range_args :: "(32 word \<times> 32 word) list \<Rightarrow> va_item list" where
  "range_args rs = concat (map (\<lambda>(sz, pos). [VaU32 sz, VaU32 pos]) rs)"

definition data_args :: "(32 word \<times> ptr) list \<Rightarrow> va_item list" where
  "data_args ds = concat (map (\<lambda>(sz, p). [VaU32 sz, VaPtr p]) ds)"

text \<open>\<open>slice buf pos n\<close>: the \<open>n\<close> bytes of \<open>buf\<close> from position \<open>pos\<close>.\<close>

definition slice :: "byte list \<Rightarrow> nat \<Rightarrow> nat \<Rightarrow> byte list" where
  "slice buf pos n = take n (drop pos buf)"

text \<open>A range is not the sentinel, and lies inside the buffer.\<close>

definition range_ok :: "byte list \<Rightarrow> 32 word \<times> 32 word \<Rightarrow> bool" where
  "range_ok buf r = (fst r \<noteq> 0 \<and> unat (snd r) + unat (fst r) \<le> length buf)"

definition selected :: "byte list \<Rightarrow> (32 word \<times> 32 word) list \<Rightarrow> byte list" where
  "selected buf rs = concat (map (\<lambda>(sz, pos). slice buf (unat pos) (unat sz)) rs)"

text \<open>A datum is not the sentinel, and its pointer is to an object of at least its size.\<close>

definition datum_ok :: "32 word \<times> ptr \<Rightarrow> bool" where
  "datum_ok d = (fst d \<noteq> 0 \<and> (case snd d of None \<Rightarrow> False | Some bs \<Rightarrow> unat (fst d) \<le> length bs))"

definition selected_data :: "(32 word \<times> ptr) list \<Rightarrow> byte list" where
  "selected_data ds =
     concat (map (\<lambda>(sz, p). case p of None \<Rightarrow> [] | Some bs \<Rightarrow> take (unat sz) bs) ds)"

text \<open>The tag and the declared total size of a response, as the verifier decodes them.\<close>

definition response_tag :: "byte list \<Rightarrow> 16 word" where
  "response_tag resp = FromTpmUint16 (slice resp 0 TPM_U16_SIZE)"

definition response_size :: "byte list \<Rightarrow> nat" where
  "response_size resp = unat (FromTpmUint32 (slice resp TPM_U16_SIZE TPM_U32_SIZE))"

text \<open>The parameter digest of the verifier: return code, ordinal, selected ranges.\<close>

definition check_param_digest :: "tpm_env \<Rightarrow> byte list \<Rightarrow> 32 word \<Rightarrow> (32 word \<times> 32 word) list \<Rightarrow> byte list" where
  "check_param_digest env resp command rs =
     sha1 env (slice resp 6 4 @ ToTpmUint32 command @ selected resp rs)"

text \<open>
  The digest the spec asks of the command authenticator, in the spec's words:
  HMAC(key) over the parameter digest (the plain hash of the selected bytes), the odd
  nonce, the even nonce and the continue-session byte.
\<close>

definition command_auth_digest ::
  "tpm_env \<Rightarrow> byte list \<Rightarrow> byte list \<Rightarrow> byte list \<Rightarrow> byte \<Rightarrow> byte list \<Rightarrow> byte list" where
  "command_auth_digest env k nonceOdd nonceEven continueSession params =
     hmac env k (sha1 env params @ nonceOdd @ nonceEven @ [continueSession])"

text \<open>
  A stand-in for the primitives and the tags, to run the model on concrete calls: digests
  of 20 equal bytes that depend on every input byte and on the order of the bytes.
\<close>

definition toy_sum :: "byte list \<Rightarrow> byte" where
  "toy_sum bs = foldl (\<lambda>a b. 3 * a + b) 7 bs"

definition toy_env :: tpm_env where
  "toy_env = \<lparr> sha1 = (\<lambda>bs. replicate 20 (toy_sum bs)),
               hmac = (\<lambda>k bs. replicate 20 (toy_sum (k @ 1 # bs))),
               TPM_TAG_RSP_COMMAND = 0xC4,
               TPM_TAG_RSP_AUTH1_COMMAND = 0xC5,
               TPM_TAG_RSP_AUTH2_COMMAND = 0xC6 \<rparr>"

section \<open>Concrete calls\<close>

text \<open>Responses of ten bytes: tag, declared size 10, return code 0.\<close>

definition rsp_noauth :: "byte list" where
  "rsp_noauth = [0x00, 0xC4, 0, 0, 0, 10, 0, 0, 0, 0]"

definition rsp_unknown :: "byte list" where
  "rsp_unknown = [0x00, 0xC1, 0, 0, 0, 10, 0, 0, 0, 0]"

definition rsp_auth2_short :: "byte list" where
  "rsp_auth2_short = [0x00, 0xC6, 0, 0, 0, 10, 0, 0, 0, 0]"

text \<open>
  An AUTH1 response of 51 bytes (the header and one trailer) and one of 100 bytes, and
  AUTH2 responses of 92 bytes (the header and two trailers). The embedded HMAC fields
  hold what the stand-in primitives give for the command ordinal \<open>0x17\<close>, the odd nonce
  \<open>odd_nonce\<close> and the keys \<open>key_a\<close> and \<open>key_b\<close>; in the last two responses one byte
  value of the first, respectively the second, HMAC field is changed.
\<close>

definition odd_nonce :: "byte list" where
  "odd_nonce = replicate 20 5"

definition key_a :: "byte list" where
  "key_a = [9, 8, 7]"

definition key_b :: "byte list" where
  "key_b = [4, 5, 6]"

definition rsp_auth1 :: "byte list" where
  "rsp_auth1 = [0x00, 0xC5, 0, 0, 0, 51, 0, 0, 0, 0]
     @ replicate 10 0xA1 @ replicate 10 0xB2 @ [1]
     @ replicate 20 117"

definition rsp_auth1_100 :: "byte list" where
  "rsp_auth1_100 = [0x00, 0xC5, 0, 0, 0, 100, 0, 0, 0, 0]
     @ replicate 40 0x0F @ replicate 9 0x3C
     @ replicate 10 0xA1 @ replicate 10 0xB2 @ [1]
     @ replicate 20 245"

definition rsp_auth2 :: "byte list" where
  "rsp_auth2 = [0x00, 0xC6, 0, 0, 0, 92, 0, 0, 0, 0]
     @ replicate 20 1 @ [1] @ replicate 20 249
     @ replicate 20 2 @ [0] @ replicate 20 145"

definition rsp_auth2_bad1 :: "byte list" where
  "rsp_auth2_bad1 = [0x00, 0xC6, 0, 0, 0, 92, 0, 0, 0, 0]
     @ replicate 20 1 @ [1] @ replicate 20 250
     @ replicate 20 2 @ [0] @ replicate 20 145"

definition rsp_auth2_bad2 :: "byte list" where
  "rsp_auth2_bad2 = [0x00, 0xC6, 0, 0, 0, 92, 0, 0, 0, 0]
     @ replicate 20 1 @ [1] @ replicate 20 249
     @ replicate 20 2 @ [0] @ replicate 20 146"

text \<open>An AUTH1 header alone: the declared size, 10, is smaller than a trailer.\<close>

definition rsp_auth1_short :: "byte list" where
  "rsp_auth1_short = [0x00, 0xC5, 0, 0, 0, 10, 0, 0, 0, 0]"

text \<open>An even nonce for calls of \<open>TSS_AuthHMAC\<close>, and an output buffer of 20 zero bytes.\<close>

definition even_nonce :: "byte list" where
  "even_nonce = replicate 20 2"

definition out_buf :: "byte list" where
  "out_buf = replicate 20 0"

section \<open>Sequencing and reads\<close>

lemma seq_Inr [simp]: "seq (Inr x) f = f x" by (simp add: seq_def)
lemma seq_Inl [simp]: "seq (Inl e) f = Inl e" by (simp add: seq_def)

lemma read_bytes_Some:
  "read_bytes (Some buf) (int pos) n =
     (if pos + n \<le> length buf then Inr (slice buf pos n) else Inl OutOfBounds)"
  by (simp add: read_bytes_def slice_def)

lemma read_bytes_at:
  "pos = int p \<Longrightarrow> read_bytes (Some buf) pos n =
     (if p + n \<le> length buf then Inr (slice buf p n) else Inl OutOfBounds)"
  by (simp add: read_bytes_def slice_def)

lemma read_bytes_neg: "pos < 0 \<Longrightarrow> read_bytes (Some buf) pos n = Inl OutOfBounds"
  by (simp add: read_bytes_def)

lemma read_bytes_None [simp]: "read_bytes None pos n = Inl NullDeref"
  by (simp add: read_bytes_def)

lemma read_bytes_uint:
  "read_bytes (Some buf) (uint w) n =
     (if unat w + n \<le> length buf then Inr (slice buf (unat w) n) else Inl OutOfBounds)"
proof -
  have "uint w = int (unat w)" by simp
  then show ?thesis using read_bytes_Some [of buf "unat w" n] by simp
qed

lemma check_args_loop_ranges:
  "list_all (\<lambda>r. fst r \<noteq> 0) rs \<Longrightarrow>
   check_args_loop (Some resp) ctx (range_args rs @ VaU32 0 # rest) =
     (if list_all (range_ok resp) rs then Inr (ctx @ selected resp rs) else Inl OutOfBounds)"
proof (induction rs arbitrary: ctx)
  case Nil
  then show ?case by (simp add: range_args_def selected_def)
next
  case (Cons r rs)
  obtain sz pos where r: "r = (sz, pos)" by (cases r)
  from Cons.prems have nz: "sz \<noteq> 0" and rest: "list_all (\<lambda>r. fst r \<noteq> 0) rs"
    by (simp_all add: r)
  have step: "check_args_loop (Some resp) ctx (range_args (r # rs) @ VaU32 0 # rest) =
      seq (read_bytes (Some resp) (uint pos) (unat sz))
        (\<lambda>bs. check_args_loop (Some resp) (sha1_update ctx bs) (range_args rs @ VaU32 0 # rest))"
    using nz by (simp add: range_args_def r)
  show ?case
    unfolding step
    by (simp add: read_bytes_uint Cons.IH [OF rest] range_ok_def r selected_def sha1_update_def nz)
qed

lemma hmac_starts_Some:
  "hmac_starts (Some k) ks = (if unat ks \<le> length k then Inr [] else Inl OutOfBounds)"
  by (simp add: hmac_starts_def read_bytes_Some [of k 0, simplified])

lemma hmac_finish_Some:
  "hmac_finish env ctx (Some k) ks =
     (if unat ks \<le> length k then Inr (hmac env (take (unat ks) k) ctx) else Inl OutOfBounds)"
  by (simp add: hmac_finish_def read_bytes_Some [of k 0, simplified] slice_def)

lemma check_auth_block_Some:
  "check_auth_block env (Some resp) sz off (Some no) (Some k) ks pd =
     (if unat ks \<le> length k \<and> unat off \<le> unat sz \<and> unat sz - unat off + 41 \<le> length resp
         \<and> 20 \<le> length no
      then Inr (hmac env (take (unat ks) k)
                  (pd @ slice resp (unat sz - unat off) 20 @ take 20 no
                      @ slice resp (unat sz - unat off + 20) 1)
                = slice resp (unat sz - unat off + 21) 20)
      else Inl OutOfBounds)"
proof (cases "unat ks \<le> length k")
  case False
  then show ?thesis by (simp add: check_auth_block_def hmac_starts_Some)
next
  case key: True
  show ?thesis
  proof (cases "unat off \<le> unat sz")
    case False
    have "uint sz = int (unat sz)" "uint off = int (unat off)" by simp_all
    with False have neg: "uint sz - uint off < 0" by linarith
    show ?thesis using False key
      by (simp add: check_auth_block_def hmac_starts_Some read_bytes_neg [OF neg])
  next
    case True
    define p where "p = unat sz - unat off"
    have "uint sz = int (unat sz)" "uint off = int (unat off)" by simp_all
    with True have e: "uint sz - uint off = int p" unfolding p_def by linarith
    have r1: "read_bytes (Some resp) (uint sz - uint off) TPM_NONCE_SIZE =
        (if p + 20 \<le> length resp then Inr (slice resp p 20) else Inl OutOfBounds)"
      unfolding TPM_NONCE_SIZE_def by (rule read_bytes_at) (simp add: e)
    have r2: "read_bytes (Some resp) (uint sz - uint off + int TPM_NONCE_SIZE) 1 =
        (if p + 20 + 1 \<le> length resp then Inr (slice resp (p + 20) 1) else Inl OutOfBounds)"
      by (rule read_bytes_at) (simp add: e TPM_NONCE_SIZE_def)
    have r3: "read_bytes (Some resp) (uint sz - uint off + int TPM_NONCE_SIZE + 1) TPM_HASH_SIZE =
        (if p + 21 + 20 \<le> length resp then Inr (slice resp (p + 21) 20) else Inl OutOfBounds)"
      unfolding TPM_HASH_SIZE_def by (rule read_bytes_at) (simp add: e TPM_NONCE_SIZE_def)
    have r4: "read_bytes (Some no) 0 TPM_NONCE_SIZE =
        (if 20 \<le> length no then Inr (take 20 no) else Inl OutOfBounds)"
      using read_bytes_Some [of no 0 20] by (simp add: TPM_NONCE_SIZE_def slice_def)
    have "check_auth_block env (Some resp) sz off (Some no) (Some k) ks pd =
        (if p + 41 \<le> length resp \<and> 20 \<le> length no
         then Inr (hmac env (take (unat ks) k)
                     (pd @ slice resp p 20 @ take 20 no @ slice resp (p + 20) 1)
                   = slice resp (p + 21) 20)
         else Inl OutOfBounds)"
    proof (cases "p + 41 \<le> length resp")
      case True
      then have "p + 20 \<le> length resp" "p + 20 + 1 \<le> length resp" "p + 21 + 20 \<le> length resp"
        by simp_all
      then show ?thesis
        unfolding check_auth_block_def r1 r2 r3 r4 Let_def
        using True key
        by (simp add: hmac_starts_Some hmac_finish_Some hmac_update_def)
    next
      case False
      then have "\<not> p + 21 + 20 \<le> length resp" by simp
      then show ?thesis
        unfolding check_auth_block_def r1 r2 r3 r4 Let_def
        using False key
        by (simp add: hmac_starts_Some hmac_finish_Some hmac_update_def)
    qed
    then show ?thesis
      using True key by (simp add: p_def)
  qed
qed


lemma check_hmac_tagged:
  assumes hdr: "6 \<le> length resp"
  shows "TSS_CheckHMAC env (Some resp) cmd no key ks key2 ks2 argp =
     (let tag = response_tag resp; size' = FromTpmUint32 (slice resp 2 4) in
      if tag = TPM_TAG_RSP_COMMAND env then Inr TPM_SUCCESS
      else if no = None \<or> key = None then Inr TPM_E_NULL_ARG
      else if tag \<noteq> TPM_TAG_RSP_AUTH1_COMMAND env \<and> tag \<noteq> TPM_TAG_RSP_AUTH2_COMMAND env
        then Inr TPM_E_HMAC_FAIL
      else if tag = TPM_TAG_RSP_AUTH2_COMMAND env \<and> key2 = None then Inr TPM_E_NULL_ARG
      else
        seq (read_bytes (Some resp) 6 4) (\<lambda>rc_bytes.
        seq (check_args_loop (Some resp) (rc_bytes @ ToTpmUint32 cmd) argp) (\<lambda>ctx.
        seq (check_auth_block env (Some resp) size'
               (if tag = TPM_TAG_RSP_AUTH2_COMMAND env then 82 else 41) no key ks (sha1 env ctx)) (\<lambda>ok.
        if \<not> ok then Inr TPM_E_HMAC_FAIL
        else if tag = TPM_TAG_RSP_AUTH2_COMMAND env then
          seq (check_auth_block env (Some resp) size' 41 no key2 ks2 (sha1 env ctx)) (\<lambda>ok2.
          if \<not> ok2 then Inr TPM_E_HMAC_FAIL else Inr TPM_SUCCESS)
        else Inr TPM_SUCCESS))))"
proof -
  have r1: "read_bytes (Some resp) 0 TPM_U16_SIZE = Inr (slice resp 0 2)"
    using hdr read_bytes_at [of 0 0 resp 2] by (simp add: TPM_U16_SIZE_def)
  have r2: "read_bytes (Some resp) (int TPM_U16_SIZE) TPM_U32_SIZE = Inr (slice resp 2 4)"
    using hdr read_bytes_at [of 2 2 resp 4] by (simp add: TPM_U16_SIZE_def TPM_U32_SIZE_def)
  have r3: "read_bytes (Some resp) (int (TPM_U16_SIZE + TPM_U32_SIZE)) TPM_U32_SIZE
      = read_bytes (Some resp) 6 4"
    by (simp add: TPM_U16_SIZE_def TPM_U32_SIZE_def)
  have o1: "(word_of_nat (TPM_NONCE_SIZE + 1 + TPM_HASH_SIZE) :: 32 word) = 41"
    by (simp add: TPM_NONCE_SIZE_def TPM_HASH_SIZE_def)
  have o2: "(41 * 2 :: 32 word) = 82" "(82 div 2 :: 32 word) = 41" by simp_all
  show ?thesis
    unfolding TSS_CheckHMAC_def r1 r2 r3 o1 seq_Inr Let_def
    by (simp add: response_tag_def TPM_U16_SIZE_def sha1_finish_def sha1_update_def sha1_starts_def o2
          cong: if_cong)
qed

section \<open>The verifier on an AUTH1 and on an AUTH2 response\<close>

lemma check_hmac_auth1:
  assumes hdr: "6 \<le> length resp"
    and tag: "response_tag resp = TPM_TAG_RSP_AUTH1_COMMAND env"
    and d1: "TPM_TAG_RSP_AUTH1_COMMAND env \<noteq> TPM_TAG_RSP_COMMAND env"
    and d2: "TPM_TAG_RSP_AUTH1_COMMAND env \<noteq> TPM_TAG_RSP_AUTH2_COMMAND env"
    and nz: "list_all (\<lambda>r. fst r \<noteq> 0) rs"
  shows "TSS_CheckHMAC env (Some resp) cmd (Some no) (Some k) ks key2 ks2
           (range_args rs @ VaU32 0 # rest) =
     (if list_all (range_ok resp) rs \<and> unat ks \<le> length k \<and> 20 \<le> length no
         \<and> 41 \<le> response_size resp \<and> response_size resp \<le> length resp
      then Inr (if hmac env (take (unat ks) k)
                     (check_param_digest env resp cmd rs
                        @ slice resp (response_size resp - 41) 20 @ take 20 no
                        @ slice resp (response_size resp - 21) 1)
                   = slice resp (response_size resp - 20) 20
                then TPM_SUCCESS else TPM_E_HMAC_FAIL)
      else Inl OutOfBounds)"
proof -
  define S where "S = response_size resp"
  have S: "unat (FromTpmUint32 (slice resp 2 4)) = S"
    by (simp add: S_def response_size_def TPM_U16_SIZE_def TPM_U32_SIZE_def)
  have u41: "unat (41 :: 32 word) = 41" by simp
  have rc: "read_bytes (Some resp) 6 4 =
      (if 10 \<le> length resp then Inr (slice resp 6 4) else Inl OutOfBounds)"
    using read_bytes_at [of 6 6 resp 4] by simp
  have blk: "check_auth_block env (Some resp) (FromTpmUint32 (slice resp 2 4)) 41 (Some no) (Some k) ks pd =
     (if unat ks \<le> length k \<and> 41 \<le> S \<and> S \<le> length resp \<and> 20 \<le> length no
      then Inr (hmac env (take (unat ks) k)
                  (pd @ slice resp (S - 41) 20 @ take 20 no @ slice resp (S - 21) 1)
                = slice resp (S - 20) 20)
      else Inl OutOfBounds)" for pd
  proof (cases "41 \<le> S")
    case True
    then have "S - 41 + 41 = S" "S - 41 + 20 = S - 21" "S - 41 + 21 = S - 20" by simp_all
    then show ?thesis unfolding check_auth_block_Some S u41 using True by simp
  next
    case False
    then show ?thesis unfolding check_auth_block_Some S u41 by simp
  qed
  have main: "TSS_CheckHMAC env (Some resp) cmd (Some no) (Some k) ks key2 ks2
           (range_args rs @ VaU32 0 # rest) =
        seq (read_bytes (Some resp) 6 4) (\<lambda>rc_bytes.
        seq (check_args_loop (Some resp) (rc_bytes @ ToTpmUint32 cmd) (range_args rs @ VaU32 0 # rest)) (\<lambda>ctx.
        seq (check_auth_block env (Some resp) (FromTpmUint32 (slice resp 2 4)) 41 (Some no) (Some k) ks (sha1 env ctx)) (\<lambda>ok.
        if \<not> ok then Inr TPM_E_HMAC_FAIL else Inr TPM_SUCCESS)))"
    using tag d1 d2 by (simp add: check_hmac_tagged [OF hdr] Let_def cong: if_cong)
  show ?thesis
  proof (cases "10 \<le> length resp")
    case False
    then have "\<not> (41 \<le> S \<and> S \<le> length resp)" by simp
    then show ?thesis unfolding main rc S_def [symmetric] using False by simp
  next
    case True
    show ?thesis
    proof (cases "list_all (range_ok resp) rs")
      case False
      then show ?thesis unfolding main rc using True
        by (simp add: check_args_loop_ranges [OF nz])
    next
      case ok: True
      show ?thesis unfolding main rc S_def [symmetric] using True ok
        by (simp add: check_args_loop_ranges [OF nz] blk check_param_digest_def)
    qed
  qed
qed


lemma check_auth_block_at:
  "check_auth_block env (Some resp) sz off (Some no) (Some k) ks pd =
     (if unat ks \<le> length k \<and> 20 \<le> length no \<and> unat off \<le> unat sz
         \<and> unat sz + 41 \<le> length resp + unat off
      then Inr (hmac env (take (unat ks) k)
                  (pd @ slice resp (unat sz - unat off) 20 @ take 20 no
                      @ slice resp (unat sz + 20 - unat off) 1)
                = slice resp (unat sz + 21 - unat off) 20)
      else Inl OutOfBounds)"
proof (cases "unat off \<le> unat sz")
  case True
  then have "unat sz - unat off + 20 = unat sz + 20 - unat off"
    "unat sz - unat off + 21 = unat sz + 21 - unat off"
    "(unat sz - unat off + 41 \<le> length resp) = (unat sz + 41 \<le> length resp + unat off)"
    by auto
  then show ?thesis unfolding check_auth_block_Some using True by auto
next
  case False
  then show ?thesis unfolding check_auth_block_Some by simp
qed

lemma check_hmac_auth2:
  assumes hdr: "6 \<le> length resp"
    and tag: "response_tag resp = TPM_TAG_RSP_AUTH2_COMMAND env"
    and d1: "TPM_TAG_RSP_AUTH2_COMMAND env \<noteq> TPM_TAG_RSP_COMMAND env"
    and nz: "list_all (\<lambda>r. fst r \<noteq> 0) rs"
  shows "TSS_CheckHMAC env (Some resp) cmd (Some no) (Some k) ks (Some k2) ks2
           (range_args rs @ VaU32 0 # rest) =
     (if list_all (range_ok resp) rs \<and> unat ks \<le> length k \<and> 20 \<le> length no
         \<and> 82 \<le> response_size resp \<and> response_size resp \<le> length resp + 41
      then
        if hmac env (take (unat ks) k)
             (check_param_digest env resp cmd rs
                @ slice resp (response_size resp - 82) 20 @ take 20 no
                @ slice resp (response_size resp - 62) 1)
           \<noteq> slice resp (response_size resp - 61) 20
        then Inr TPM_E_HMAC_FAIL
        else if unat ks2 \<le> length k2 \<and> response_size resp \<le> length resp
        then Inr (if hmac env (take (unat ks2) k2)
                       (check_param_digest env resp cmd rs
                          @ slice resp (response_size resp - 41) 20 @ take 20 no
                          @ slice resp (response_size resp - 21) 1)
                     = slice resp (response_size resp - 20) 20
                  then TPM_SUCCESS else TPM_E_HMAC_FAIL)
        else Inl OutOfBounds
      else Inl OutOfBounds)"
proof -
  define S where "S = response_size resp"
  have S: "unat (FromTpmUint32 (slice resp 2 4)) = S"
    by (simp add: S_def response_size_def TPM_U16_SIZE_def TPM_U32_SIZE_def)
  have u: "unat (41 :: 32 word) = 41" "unat (82 :: 32 word) = 82" by simp_all
  have rc: "read_bytes (Some resp) 6 4 =
      (if 10 \<le> length resp then Inr (slice resp 6 4) else Inl OutOfBounds)"
    using read_bytes_at [of 6 6 resp 4] by simp
  have blk1: "check_auth_block env (Some resp) (FromTpmUint32 (slice resp 2 4)) 82 (Some no) (Some k) ks pd =
     (if unat ks \<le> length k \<and> 20 \<le> length no \<and> 82 \<le> S \<and> S \<le> length resp + 41
      then Inr (hmac env (take (unat ks) k)
                  (pd @ slice resp (S - 82) 20 @ take 20 no @ slice resp (S - 62) 1)
                = slice resp (S - 61) 20)
      else Inl OutOfBounds)" for pd
    unfolding check_auth_block_at S u by auto
  have blk2: "check_auth_block env (Some resp) (FromTpmUint32 (slice resp 2 4)) 41 (Some no) (Some k2) ks2 pd =
     (if unat ks2 \<le> length k2 \<and> 20 \<le> length no \<and> 41 \<le> S \<and> S \<le> length resp
      then Inr (hmac env (take (unat ks2) k2)
                  (pd @ slice resp (S - 41) 20 @ take 20 no @ slice resp (S - 21) 1)
                = slice resp (S - 20) 20)
      else Inl OutOfBounds)" for pd
    unfolding check_auth_block_at S u by auto
  have main: "TSS_CheckHMAC env (Some resp) cmd (Some no) (Some k) ks (Some k2) ks2
           (range_args rs @ VaU32 0 # rest) =
        seq (read_bytes (Some resp) 6 4) (\<lambda>rc_bytes.
        seq (check_args_loop (Some resp) (rc_bytes @ ToTpmUint32 cmd) (range_args rs @ VaU32 0 # rest)) (\<lambda>ctx.
        seq (check_auth_block env (Some resp) (FromTpmUint32 (slice resp 2 4)) 82 (Some no) (Some k) ks (sha1 env ctx)) (\<lambda>ok.
        if \<not> ok then Inr TPM_E_HMAC_FAIL
        else seq (check_auth_block env (Some resp) (FromTpmUint32 (slice resp 2 4)) 41 (Some no) (Some k2) ks2 (sha1 env ctx))
          (\<lambda>ok2. if \<not> ok2 then Inr TPM_E_HMAC_FAIL else Inr TPM_SUCCESS))))"
    using tag d1 by (simp add: check_hmac_tagged [OF hdr] Let_def cong: if_cong)
  show ?thesis
  proof (cases "10 \<le> length resp")
    case False
    then have "\<not> (82 \<le> S \<and> S \<le> length resp + 41)" by simp
    then show ?thesis unfolding main rc S_def [symmetric] using False by simp
  next
    case True
    show ?thesis
    proof (cases "list_all (range_ok resp) rs")
      case False
      then show ?thesis unfolding main rc using True
        by (simp add: check_args_loop_ranges [OF nz])
    next
      case ok: True
      show ?thesis unfolding main rc S_def [symmetric] using True ok
        by (simp add: check_args_loop_ranges [OF nz] blk1 blk2 check_param_digest_def)
    qed
  qed
qed

section \<open>The integer packing, and the argument lists of a call\<close>

text \<open>
  \<open>ToTpmUint32\<close> writes the most significant byte first, and \<open>FromTpmUint32\<close>
  reads it back.
\<close>

lemma ToTpmUint32_example: "ToTpmUint32 0x0A0B0C0D = [0x0A, 0x0B, 0x0C, 0x0D]"
  by (simp add: ToTpmUint32_def)

lemma FromTpmUint32_ToTpmUint32: "FromTpmUint32 (ToTpmUint32 x) = x"
  unfolding ToTpmUint32_def FromTpmUint32.simps
  apply (rule bit_word_eqI)
  apply (auto simp add: bit_simps)
  subgoal for n by (cases "16 \<le> n") simp_all
  subgoal for n by (cases "16 \<le> n") simp_all
  done

lemma range_ok_nonzero:
  "list_all (range_ok resp) rs \<Longrightarrow> list_all (\<lambda>r. fst r \<noteq> 0) rs"
  by (induction rs) (simp_all add: range_ok_def)

lemma range_outside_not_ok:
  "list_ex (\<lambda>r. length resp < unat (snd r) + unat (fst r)) rs \<Longrightarrow> \<not> list_all (range_ok resp) rs"
  by (induction rs) (auto simp add: range_ok_def)

lemma auth_args_loop_data:
  "list_all datum_ok ds \<Longrightarrow>
   auth_args_loop ctx (data_args ds @ VaU32 0 # rest) = Inr (Inr (ctx @ selected_data ds))"
proof (induction ds arbitrary: ctx)
  case Nil
  then show ?case by (simp add: data_args_def selected_data_def)
next
  case (Cons d ds)
  from Cons.prems have ok: "datum_ok d" and rest: "list_all datum_ok ds" by simp_all
  from ok obtain sz bs where d: "d = (sz, Some bs)" and nz: "sz \<noteq> 0"
    and len: "unat sz \<le> length bs"
    by (cases d) (auto simp add: datum_ok_def split: option.splits)
  have rd: "read_bytes (Some bs) 0 (unat sz) = Inr (take (unat sz) bs)"
    using len read_bytes_at [of 0 0 bs "unat sz"] by (simp add: slice_def)
  have step: "auth_args_loop ctx (data_args (d # ds) @ VaU32 0 # rest) =
      auth_args_loop (ctx @ take (unat sz) bs) (data_args ds @ VaU32 0 # rest)"
    using nz by (simp add: data_args_def d rd sha1_update_def)
  show ?case
    unfolding step Cons.IH [OF rest] by (simp add: selected_data_def d)
qed

lemma auth_args_loop_null:
  "list_all datum_ok ds \<Longrightarrow> arg_size \<noteq> 0 \<Longrightarrow>
   auth_args_loop ctx (data_args ds @ VaU32 arg_size # VaPtr None # rest) = Inr (Inl TPM_E_NULL_ARG)"
proof (induction ds arbitrary: ctx)
  case Nil
  then show ?case by (simp add: data_args_def)
next
  case (Cons d ds)
  from Cons.prems have ok: "datum_ok d" and rest: "list_all datum_ok ds" by simp_all
  from ok obtain sz bs where d: "d = (sz, Some bs)" and nz: "sz \<noteq> 0"
    and len: "unat sz \<le> length bs"
    by (cases d) (auto simp add: datum_ok_def split: option.splits)
  have rd: "read_bytes (Some bs) 0 (unat sz) = Inr (take (unat sz) bs)"
    using len read_bytes_at [of 0 0 bs "unat sz"] by (simp add: slice_def)
  have step: "auth_args_loop ctx (data_args (d # ds) @ VaU32 arg_size # VaPtr None # rest) =
      auth_args_loop (ctx @ take (unat sz) bs) (data_args ds @ VaU32 arg_size # VaPtr None # rest)"
    using nz by (simp add: data_args_def d rd sha1_update_def)
  show ?case
    unfolding step by (rule Cons.IH [OF rest Cons.prems(2)])
qed

section \<open>The response verifier: AUTH1\<close>

text \<open>
  C1. For every AUTH1-tagged response, with \<open>response\<close>, \<open>nonceOdd\<close> and \<open>key\<close> not
  null, the parameter digest is the plain hash of the 4 return-code bytes at offset 6,
  then the 4 big-endian bytes of the \<open>command\<close> argument, then each selected range of
  the response in the order of the call; the call returns \<open>TPM_SUCCESS\<close> exactly when
  the HMAC under the key of parameter digest, even nonce, odd nonce and continue flag
  equals the HMAC field embedded in the trailer, and \<open>TPM_E_HMAC_FAIL\<close> otherwise.
  The hypotheses are those under which the C code reads inside its objects: the ranges
  lie inside the response, the key holds \<open>keySize\<close> bytes and the odd nonce
  \<open>TPM_NONCE_SIZE\<close>, and the declared size is at least a trailer and at most the
  length of the response.
\<close>

theorem C1_auth1_digest_and_hmac:
  assumes tag: "response_tag resp = TPM_TAG_RSP_AUTH1_COMMAND env"
    and d1: "TPM_TAG_RSP_AUTH1_COMMAND env \<noteq> TPM_TAG_RSP_COMMAND env"
    and d2: "TPM_TAG_RSP_AUTH1_COMMAND env \<noteq> TPM_TAG_RSP_AUTH2_COMMAND env"
    and ranges: "list_all (range_ok resp) rs"
    and key: "unat keySize \<le> length key"
    and nonce: "TPM_NONCE_SIZE \<le> length nonceOdd"
    and lo: "TPM_NONCE_SIZE + 1 + TPM_HASH_SIZE \<le> response_size resp"
    and hi: "response_size resp \<le> length resp"
  shows "TSS_CheckHMAC env (Some resp) command (Some nonceOdd) (Some key) keySize key2 keySize2
           (range_args rs @ VaU32 0 # rest) =
     (let paramDigest = sha1 env (slice resp 6 4 @ ToTpmUint32 command @ selected resp rs);
          trailer = response_size resp - (TPM_NONCE_SIZE + 1 + TPM_HASH_SIZE);
          evenNonce = slice resp trailer TPM_NONCE_SIZE;
          continueFlag = slice resp (trailer + TPM_NONCE_SIZE) 1;
          embedded = slice resp (trailer + TPM_NONCE_SIZE + 1) TPM_HASH_SIZE
      in Inr (if hmac env (take (unat keySize) key)
                   (paramDigest @ evenNonce @ take TPM_NONCE_SIZE nonceOdd @ continueFlag)
                 = embedded
              then TPM_SUCCESS else TPM_E_HMAC_FAIL))"
proof -
  from lo hi have hdr: "6 \<le> length resp"
    by (simp add: TPM_NONCE_SIZE_def TPM_HASH_SIZE_def)
  from lo have lo': "41 \<le> response_size resp"
    by (simp add: TPM_NONCE_SIZE_def TPM_HASH_SIZE_def)
  then have e: "response_size resp - 41 + 20 = response_size resp - 21"
    "response_size resp - 41 + 21 = response_size resp - 20" by simp_all
  from nonce have n: "20 \<le> length nonceOdd" by (simp add: TPM_NONCE_SIZE_def)
  show ?thesis
    unfolding check_hmac_auth1 [OF hdr tag d1 d2 range_ok_nonzero [OF ranges]]
    using ranges key n lo' hi
    by (simp add: Let_def TPM_NONCE_SIZE_def TPM_HASH_SIZE_def check_param_digest_def e)
qed

text \<open>
  An AUTH1 response of 51 bytes whose trailer holds the right HMAC verifies.
\<close>

theorem C1_auth1_digest_and_hmac_witness:
  "TSS_CheckHMAC toy_env (Some rsp_auth1) 0x17 (Some odd_nonce) (Some key_a) 3 None 0
     (range_args [(4, 6)] @ VaU32 0 # []) = Inr TPM_SUCCESS"
proof -
  have tag: "response_tag rsp_auth1 = TPM_TAG_RSP_AUTH1_COMMAND toy_env" by code_simp
  have d1: "TPM_TAG_RSP_AUTH1_COMMAND toy_env \<noteq> TPM_TAG_RSP_COMMAND toy_env"
    by (simp add: toy_env_def)
  have d2: "TPM_TAG_RSP_AUTH1_COMMAND toy_env \<noteq> TPM_TAG_RSP_AUTH2_COMMAND toy_env"
    by (simp add: toy_env_def)
  have ranges: "list_all (range_ok rsp_auth1) [(4, 6)]" by code_simp
  have key: "unat (3 :: 32 word) \<le> length key_a" by (simp add: key_a_def)
  have nonce: "TPM_NONCE_SIZE \<le> length odd_nonce" by (simp add: TPM_NONCE_SIZE_def odd_nonce_def)
  have lo: "TPM_NONCE_SIZE + 1 + TPM_HASH_SIZE \<le> response_size rsp_auth1" by code_simp
  have hi: "response_size rsp_auth1 \<le> length rsp_auth1" by code_simp
  have ok: "(let paramDigest = sha1 toy_env (slice rsp_auth1 6 4 @ ToTpmUint32 0x17 @ selected rsp_auth1 [(4, 6)]);
          trailer = response_size rsp_auth1 - (TPM_NONCE_SIZE + 1 + TPM_HASH_SIZE);
          evenNonce = slice rsp_auth1 trailer TPM_NONCE_SIZE;
          continueFlag = slice rsp_auth1 (trailer + TPM_NONCE_SIZE) 1;
          embedded = slice rsp_auth1 (trailer + TPM_NONCE_SIZE + 1) TPM_HASH_SIZE
      in Inr (if hmac toy_env (take (unat (3 :: 32 word)) key_a)
                   (paramDigest @ evenNonce @ take TPM_NONCE_SIZE odd_nonce @ continueFlag)
                 = embedded
              then TPM_SUCCESS else TPM_E_HMAC_FAIL)) = (Inr TPM_SUCCESS :: fault + tpm_rc)"
    by code_simp
  show ?thesis
    using C1_auth1_digest_and_hmac [OF tag d1 d2 ranges key nonce lo hi, where command = "0x17"
        and ?key2.0 = None and ?keySize2.0 = 0 and rest = "[]"] ok
    by simp
qed

text \<open>
  C3. With digest size 20 and nonce size 20, for an AUTH1 response of declared total
  size \<open>S\<close> the verifier reads the even nonce at offset \<open>S - (20 + 1 + 20)\<close>, the
  continue flag at \<open>S - (1 + 20)\<close> and the embedded HMAC at \<open>S - 20\<close>: the result is
  the comparison of the HMAC over the bytes at exactly these offsets, and the call reads
  inside the response exactly when \<open>41 \<le> S\<close> and \<open>S\<close> is at most the length of the
  response. For \<open>S = 100\<close> the even nonce is at 59, the continue flag at 79 and the
  HMAC at bytes 80 to 99.
\<close>

theorem C3_auth1_trailer_offsets:
  assumes hdr: "6 \<le> length resp"
    and tag: "response_tag resp = TPM_TAG_RSP_AUTH1_COMMAND env"
    and d1: "TPM_TAG_RSP_AUTH1_COMMAND env \<noteq> TPM_TAG_RSP_COMMAND env"
    and d2: "TPM_TAG_RSP_AUTH1_COMMAND env \<noteq> TPM_TAG_RSP_AUTH2_COMMAND env"
    and ranges: "list_all (range_ok resp) rs"
    and key: "unat keySize \<le> length key"
    and nonce: "20 \<le> length nonceOdd"
    and S: "S = response_size resp"
  shows "TSS_CheckHMAC env (Some resp) command (Some nonceOdd) (Some key) keySize key2 keySize2
           (range_args rs @ VaU32 0 # rest) =
       (if 20 + 1 + 20 \<le> S \<and> S \<le> length resp
        then Inr (if hmac env (take (unat keySize) key)
                       (check_param_digest env resp command rs
                          @ slice resp (S - (20 + 1 + 20)) 20 @ take 20 nonceOdd
                          @ slice resp (S - (1 + 20)) 1)
                     = slice resp (S - 20) 20
                  then TPM_SUCCESS else TPM_E_HMAC_FAIL)
        else Inl OutOfBounds)
     \<and> (S = 100 \<and> 100 \<le> length resp \<longrightarrow>
          TSS_CheckHMAC env (Some resp) command (Some nonceOdd) (Some key) keySize key2 keySize2
            (range_args rs @ VaU32 0 # rest) =
          Inr (if hmac env (take (unat keySize) key)
                    (check_param_digest env resp command rs
                       @ slice resp 59 20 @ take 20 nonceOdd @ slice resp 79 1)
                  = slice resp 80 20
               then TPM_SUCCESS else TPM_E_HMAC_FAIL))"
  unfolding check_hmac_auth1 [OF hdr tag d1 d2 range_ok_nonzero [OF ranges]] S
  using ranges key nonce by simp

text \<open>
  A response of declared size 100: the bytes at 59, 79 and 80, and the result.
\<close>

theorem C3_auth1_trailer_offsets_witness:
  "TSS_CheckHMAC toy_env (Some rsp_auth1_100) 0x17 (Some odd_nonce) (Some key_a) 3 None 0
     (range_args [(4, 6), (8, 10)] @ VaU32 0 # []) =
   Inr (if hmac toy_env (take (unat (3 :: 32 word)) key_a)
             (check_param_digest toy_env rsp_auth1_100 0x17 [(4, 6), (8, 10)]
                @ slice rsp_auth1_100 59 20 @ take 20 odd_nonce @ slice rsp_auth1_100 79 1)
           = slice rsp_auth1_100 80 20
        then TPM_SUCCESS else TPM_E_HMAC_FAIL)
   \<and> slice rsp_auth1_100 59 20 = replicate 10 0xA1 @ replicate 10 0xB2
   \<and> slice rsp_auth1_100 79 1 = [1]
   \<and> slice rsp_auth1_100 80 20 = replicate 20 245
   \<and> TSS_CheckHMAC toy_env (Some rsp_auth1_100) 0x17 (Some odd_nonce) (Some key_a) 3 None 0
     (range_args [(4, 6), (8, 10)] @ VaU32 0 # []) = Inr TPM_SUCCESS"
proof -
  have hdr: "6 \<le> length rsp_auth1_100" by code_simp
  have tag: "response_tag rsp_auth1_100 = TPM_TAG_RSP_AUTH1_COMMAND toy_env" by code_simp
  have d1: "TPM_TAG_RSP_AUTH1_COMMAND toy_env \<noteq> TPM_TAG_RSP_COMMAND toy_env"
    by (simp add: toy_env_def)
  have d2: "TPM_TAG_RSP_AUTH1_COMMAND toy_env \<noteq> TPM_TAG_RSP_AUTH2_COMMAND toy_env"
    by (simp add: toy_env_def)
  have ranges: "list_all (range_ok rsp_auth1_100) [(4, 6), (8, 10)]" by code_simp
  have key: "unat (3 :: 32 word) \<le> length key_a" by (simp add: key_a_def)
  have nonce: "20 \<le> length odd_nonce" by (simp add: odd_nonce_def)
  have S: "100 = response_size rsp_auth1_100" by code_simp
  have len: "100 \<le> length rsp_auth1_100" by code_simp
  have s1: "slice rsp_auth1_100 59 20 = replicate 10 0xA1 @ replicate 10 0xB2" by code_simp
  have s2: "slice rsp_auth1_100 79 1 = [1]" by code_simp
  have s3: "slice rsp_auth1_100 80 20 = replicate 20 245" by code_simp
  have ok: "hmac toy_env (take (unat (3 :: 32 word)) key_a)
             (check_param_digest toy_env rsp_auth1_100 0x17 [(4, 6), (8, 10)]
                @ slice rsp_auth1_100 59 20 @ take 20 odd_nonce @ slice rsp_auth1_100 79 1)
           = slice rsp_auth1_100 80 20" by code_simp
  have "TSS_CheckHMAC toy_env (Some rsp_auth1_100) 0x17 (Some odd_nonce) (Some key_a) 3 None 0
     (range_args [(4, 6), (8, 10)] @ VaU32 0 # []) =
   Inr (if hmac toy_env (take (unat (3 :: 32 word)) key_a)
             (check_param_digest toy_env rsp_auth1_100 0x17 [(4, 6), (8, 10)]
                @ slice rsp_auth1_100 59 20 @ take 20 odd_nonce @ slice rsp_auth1_100 79 1)
           = slice rsp_auth1_100 80 20
        then TPM_SUCCESS else TPM_E_HMAC_FAIL)"
    using C3_auth1_trailer_offsets [OF hdr tag d1 d2 ranges key nonce S, where command = "0x17"
        and ?key2.0 = None and ?keySize2.0 = 0 and rest = "[]"] len
    by blast
  then show ?thesis using s1 s2 s3 ok by simp
qed

section \<open>The response verifier: AUTH2\<close>

text \<open>
  C4 (amended). For every AUTH2-tagged response with \<open>key2\<close> present, the call returns
  \<open>TPM_SUCCESS\<close> exactly when both authorization blocks verify: the earlier block, at
  \<open>2 * (TPM_NONCE_SIZE + 1 + TPM_HASH_SIZE)\<close> bytes before the declared end of the
  message, against \<open>key\<close>, and the later block, at \<open>TPM_NONCE_SIZE + 1 + TPM_HASH_SIZE\<close>
  bytes before it, against \<open>key2\<close>, with the same parameter digest and odd nonce. When
  either block mismatches the result is \<open>TPM_E_HMAC_FAIL\<close>, the same code for the first
  and for the second block.
\<close>

theorem C4_auth2_both_blocks:
  assumes tag: "response_tag resp = TPM_TAG_RSP_AUTH2_COMMAND env"
    and d1: "TPM_TAG_RSP_AUTH2_COMMAND env \<noteq> TPM_TAG_RSP_COMMAND env"
    and ranges: "list_all (range_ok resp) rs"
    and key: "unat keySize \<le> length key"
    and key2: "unat keySize2 \<le> length key2"
    and nonce: "TPM_NONCE_SIZE \<le> length nonceOdd"
    and lo: "2 * (TPM_NONCE_SIZE + 1 + TPM_HASH_SIZE) \<le> response_size resp"
    and hi: "response_size resp \<le> length resp"
  shows "TSS_CheckHMAC env (Some resp) command (Some nonceOdd) (Some key) keySize
           (Some key2) keySize2 (range_args rs @ VaU32 0 # rest) =
     (let paramDigest = check_param_digest env resp command rs;
          block = TPM_NONCE_SIZE + 1 + TPM_HASH_SIZE;
          first = response_size resp - 2 * block;
          second = response_size resp - block;
          ok1 = (hmac env (take (unat keySize) key)
                   (paramDigest @ slice resp first TPM_NONCE_SIZE
                      @ take TPM_NONCE_SIZE nonceOdd @ slice resp (first + TPM_NONCE_SIZE) 1)
                 = slice resp (first + TPM_NONCE_SIZE + 1) TPM_HASH_SIZE);
          ok2 = (hmac env (take (unat keySize2) key2)
                   (paramDigest @ slice resp second TPM_NONCE_SIZE
                      @ take TPM_NONCE_SIZE nonceOdd @ slice resp (second + TPM_NONCE_SIZE) 1)
                 = slice resp (second + TPM_NONCE_SIZE + 1) TPM_HASH_SIZE)
      in Inr (if ok1 \<and> ok2 then TPM_SUCCESS else TPM_E_HMAC_FAIL))"
proof -
  from lo hi have hdr: "6 \<le> length resp"
    by (simp add: TPM_NONCE_SIZE_def TPM_HASH_SIZE_def)
  from lo have lo': "82 \<le> response_size resp"
    by (simp add: TPM_NONCE_SIZE_def TPM_HASH_SIZE_def)
  then have e: "response_size resp - 82 + 20 = response_size resp - 62"
    "response_size resp - 82 + 21 = response_size resp - 61"
    "response_size resp - 41 + 20 = response_size resp - 21"
    "response_size resp - 41 + 21 = response_size resp - 20" by simp_all
  from nonce have n: "20 \<le> length nonceOdd" by (simp add: TPM_NONCE_SIZE_def)
  from hi have hi': "response_size resp \<le> length resp + 41" by simp
  show ?thesis
    unfolding check_hmac_auth2 [OF hdr tag d1 range_ok_nonzero [OF ranges]]
    using ranges key key2 n lo' hi hi'
    by (simp add: Let_def TPM_NONCE_SIZE_def TPM_HASH_SIZE_def e)
qed

text \<open>
  An AUTH2 response whose two blocks verify, and one whose second HMAC is changed.
\<close>

theorem C4_auth2_both_blocks_witness:
  "TSS_CheckHMAC toy_env (Some rsp_auth2) 0x17 (Some odd_nonce) (Some key_a) 3 (Some key_b) 3
     (range_args [] @ VaU32 0 # []) = Inr TPM_SUCCESS
   \<and> TSS_CheckHMAC toy_env (Some rsp_auth2_bad2) 0x17 (Some odd_nonce) (Some key_a) 3 (Some key_b) 3
     (range_args [] @ VaU32 0 # []) = Inr TPM_E_HMAC_FAIL"
proof -
  have d1: "TPM_TAG_RSP_AUTH2_COMMAND toy_env \<noteq> TPM_TAG_RSP_COMMAND toy_env"
    by (simp add: toy_env_def)
  have ranges: "list_all (range_ok resp) []" for resp by simp
  have key: "unat (3 :: 32 word) \<le> length key_a" by (simp add: key_a_def)
  have key2: "unat (3 :: 32 word) \<le> length key_b" by (simp add: key_b_def)
  have nonce: "TPM_NONCE_SIZE \<le> length odd_nonce" by (simp add: TPM_NONCE_SIZE_def odd_nonce_def)
  have tag: "response_tag rsp_auth2 = TPM_TAG_RSP_AUTH2_COMMAND toy_env" by code_simp
  have lo: "2 * (TPM_NONCE_SIZE + 1 + TPM_HASH_SIZE) \<le> response_size rsp_auth2" by code_simp
  have hi: "response_size rsp_auth2 \<le> length rsp_auth2" by code_simp
  have tag': "response_tag rsp_auth2_bad2 = TPM_TAG_RSP_AUTH2_COMMAND toy_env" by code_simp
  have lo': "2 * (TPM_NONCE_SIZE + 1 + TPM_HASH_SIZE) \<le> response_size rsp_auth2_bad2" by code_simp
  have hi': "response_size rsp_auth2_bad2 \<le> length rsp_auth2_bad2" by code_simp
  have ok: "(let paramDigest = check_param_digest toy_env rsp_auth2 0x17 [];
          block = TPM_NONCE_SIZE + 1 + TPM_HASH_SIZE;
          first = response_size rsp_auth2 - 2 * block;
          second = response_size rsp_auth2 - block;
          ok1 = (hmac toy_env (take (unat (3 :: 32 word)) key_a)
                   (paramDigest @ slice rsp_auth2 first TPM_NONCE_SIZE
                      @ take TPM_NONCE_SIZE odd_nonce @ slice rsp_auth2 (first + TPM_NONCE_SIZE) 1)
                 = slice rsp_auth2 (first + TPM_NONCE_SIZE + 1) TPM_HASH_SIZE);
          ok2 = (hmac toy_env (take (unat (3 :: 32 word)) key_b)
                   (paramDigest @ slice rsp_auth2 second TPM_NONCE_SIZE
                      @ take TPM_NONCE_SIZE odd_nonce @ slice rsp_auth2 (second + TPM_NONCE_SIZE) 1)
                 = slice rsp_auth2 (second + TPM_NONCE_SIZE + 1) TPM_HASH_SIZE)
      in Inr (if ok1 \<and> ok2 then TPM_SUCCESS else TPM_E_HMAC_FAIL)) = (Inr TPM_SUCCESS :: fault + tpm_rc)"
    by code_simp
  have bad: "(let paramDigest = check_param_digest toy_env rsp_auth2_bad2 0x17 [];
          block = TPM_NONCE_SIZE + 1 + TPM_HASH_SIZE;
          first = response_size rsp_auth2_bad2 - 2 * block;
          second = response_size rsp_auth2_bad2 - block;
          ok1 = (hmac toy_env (take (unat (3 :: 32 word)) key_a)
                   (paramDigest @ slice rsp_auth2_bad2 first TPM_NONCE_SIZE
                      @ take TPM_NONCE_SIZE odd_nonce @ slice rsp_auth2_bad2 (first + TPM_NONCE_SIZE) 1)
                 = slice rsp_auth2_bad2 (first + TPM_NONCE_SIZE + 1) TPM_HASH_SIZE);
          ok2 = (hmac toy_env (take (unat (3 :: 32 word)) key_b)
                   (paramDigest @ slice rsp_auth2_bad2 second TPM_NONCE_SIZE
                      @ take TPM_NONCE_SIZE odd_nonce @ slice rsp_auth2_bad2 (second + TPM_NONCE_SIZE) 1)
                 = slice rsp_auth2_bad2 (second + TPM_NONCE_SIZE + 1) TPM_HASH_SIZE)
      in Inr (if ok1 \<and> ok2 then TPM_SUCCESS else TPM_E_HMAC_FAIL)) = (Inr TPM_E_HMAC_FAIL :: fault + tpm_rc)"
    by code_simp
  show ?thesis
    using C4_auth2_both_blocks [OF tag d1 ranges key key2 nonce lo hi, where command = "0x17"
        and rest = "[]"]
      C4_auth2_both_blocks [OF tag' d1 ranges key key2 nonce lo' hi', where command = "0x17"
        and rest = "[]"] ok bad
    by simp
qed

text \<open>
  C4 as stated fails: the failure is not attributed to a session. A response whose
  first block verifies and whose second does not, and a response whose first block does
  not verify (and whose second would), give the same result.
\<close>

theorem C4_no_session_attribution_counterexample:
  "check_auth_block toy_env (Some rsp_auth2_bad2) 92 82 (Some odd_nonce) (Some key_a) 3
      (check_param_digest toy_env rsp_auth2_bad2 0x17 []) = Inr True
   \<and> check_auth_block toy_env (Some rsp_auth2_bad2) 92 41 (Some odd_nonce) (Some key_b) 3
      (check_param_digest toy_env rsp_auth2_bad2 0x17 []) = Inr False
   \<and> check_auth_block toy_env (Some rsp_auth2_bad1) 92 82 (Some odd_nonce) (Some key_a) 3
      (check_param_digest toy_env rsp_auth2_bad1 0x17 []) = Inr False
   \<and> check_auth_block toy_env (Some rsp_auth2_bad1) 92 41 (Some odd_nonce) (Some key_b) 3
      (check_param_digest toy_env rsp_auth2_bad1 0x17 []) = Inr True
   \<and> TSS_CheckHMAC toy_env (Some rsp_auth2_bad2) 0x17 (Some odd_nonce) (Some key_a) 3
        (Some key_b) 3 [VaU32 0] = Inr TPM_E_HMAC_FAIL
   \<and> TSS_CheckHMAC toy_env (Some rsp_auth2_bad1) 0x17 (Some odd_nonce) (Some key_a) 3
        (Some key_b) 3 [VaU32 0] = Inr TPM_E_HMAC_FAIL"
  by code_simp

section \<open>The response verifier: ranges and sizes are not checked\<close>

text \<open>
  C5 (amended). The source has no bounds check and no result for an invalid range. For
  every call with an AUTH1 or AUTH2 response and no null pointer, in which some selected
  range lies outside the response buffer, or in which the trailer offset
  \<open>TPM_NONCE_SIZE + 1 + TPM_HASH_SIZE\<close> (doubled for AUTH2) exceeds the declared total
  size, the call reads outside an object (undefined behaviour in C) and returns no
  code.
\<close>

theorem C5_no_bounds_check:
  assumes hdr: "6 \<le> length resp"
    and tag: "response_tag resp = TPM_TAG_RSP_AUTH1_COMMAND env
              \<or> response_tag resp = TPM_TAG_RSP_AUTH2_COMMAND env"
    and d1: "TPM_TAG_RSP_AUTH1_COMMAND env \<noteq> TPM_TAG_RSP_COMMAND env"
    and d2: "TPM_TAG_RSP_AUTH2_COMMAND env \<noteq> TPM_TAG_RSP_COMMAND env"
    and d3: "TPM_TAG_RSP_AUTH1_COMMAND env \<noteq> TPM_TAG_RSP_AUTH2_COMMAND env"
    and nz: "list_all (\<lambda>r. fst r \<noteq> 0) rs"
    and bad: "list_ex (\<lambda>r. length resp < unat (snd r) + unat (fst r)) rs
              \<or> response_size resp <
                  (if response_tag resp = TPM_TAG_RSP_AUTH2_COMMAND env
                   then 2 * (TPM_NONCE_SIZE + 1 + TPM_HASH_SIZE)
                   else TPM_NONCE_SIZE + 1 + TPM_HASH_SIZE)"
  shows "TSS_CheckHMAC env (Some resp) command (Some nonceOdd) (Some key) keySize
           (Some key2) keySize2 (range_args rs @ VaU32 0 # rest) = Inl OutOfBounds"
  using tag
proof
  assume t: "response_tag resp = TPM_TAG_RSP_AUTH1_COMMAND env"
  with bad d3 have "\<not> list_all (range_ok resp) rs \<or> response_size resp < 41"
    by (auto simp add: TPM_NONCE_SIZE_def TPM_HASH_SIZE_def dest: range_outside_not_ok)
  then show ?thesis
    unfolding check_hmac_auth1 [OF hdr t d1 d3 nz] by auto
next
  assume t: "response_tag resp = TPM_TAG_RSP_AUTH2_COMMAND env"
  with bad have "\<not> list_all (range_ok resp) rs \<or> response_size resp < 82"
    by (auto simp add: TPM_NONCE_SIZE_def TPM_HASH_SIZE_def dest: range_outside_not_ok)
  then show ?thesis
    unfolding check_hmac_auth2 [OF hdr t d2 nz] by auto
qed

text \<open>
  A range at position 100 of a response of 51 bytes, and a declared size of 10.
\<close>

theorem C5_no_bounds_check_witness:
  "TSS_CheckHMAC toy_env (Some rsp_auth1) 0x17 (Some odd_nonce) (Some key_a) 3 (Some key_b) 3
     (range_args [(4, 6), (4, 100)] @ VaU32 0 # []) = Inl OutOfBounds
   \<and> TSS_CheckHMAC toy_env (Some rsp_auth1_short) 0x17 (Some odd_nonce) (Some key_a) 3 (Some key_b) 3
     (range_args [] @ VaU32 0 # []) = Inl OutOfBounds"
proof -
  have d1: "TPM_TAG_RSP_AUTH1_COMMAND toy_env \<noteq> TPM_TAG_RSP_COMMAND toy_env"
    and d2: "TPM_TAG_RSP_AUTH2_COMMAND toy_env \<noteq> TPM_TAG_RSP_COMMAND toy_env"
    and d3: "TPM_TAG_RSP_AUTH1_COMMAND toy_env \<noteq> TPM_TAG_RSP_AUTH2_COMMAND toy_env"
    by (simp_all add: toy_env_def)
  have hdr: "6 \<le> length rsp_auth1" by code_simp
  have tag: "response_tag rsp_auth1 = TPM_TAG_RSP_AUTH1_COMMAND toy_env
              \<or> response_tag rsp_auth1 = TPM_TAG_RSP_AUTH2_COMMAND toy_env" by code_simp
  have nz: "list_all (\<lambda>r. fst r \<noteq> 0) [(4 :: 32 word, 6 :: 32 word), (4, 100)]" by simp
  have bad: "list_ex (\<lambda>r. length rsp_auth1 < unat (snd r) + unat (fst r)) [(4 :: 32 word, 6 :: 32 word), (4, 100)]
              \<or> response_size rsp_auth1 <
                  (if response_tag rsp_auth1 = TPM_TAG_RSP_AUTH2_COMMAND toy_env
                   then 2 * (TPM_NONCE_SIZE + 1 + TPM_HASH_SIZE)
                   else TPM_NONCE_SIZE + 1 + TPM_HASH_SIZE)" by code_simp
  have hdr': "6 \<le> length rsp_auth1_short" by code_simp
  have tag': "response_tag rsp_auth1_short = TPM_TAG_RSP_AUTH1_COMMAND toy_env
              \<or> response_tag rsp_auth1_short = TPM_TAG_RSP_AUTH2_COMMAND toy_env" by code_simp
  have nz': "list_all (\<lambda>r. fst r \<noteq> 0) ([] :: (32 word \<times> 32 word) list)" by simp
  have bad': "list_ex (\<lambda>r. length rsp_auth1_short < unat (snd r) + unat (fst r)) ([] :: (32 word \<times> 32 word) list)
              \<or> response_size rsp_auth1_short <
                  (if response_tag rsp_auth1_short = TPM_TAG_RSP_AUTH2_COMMAND toy_env
                   then 2 * (TPM_NONCE_SIZE + 1 + TPM_HASH_SIZE)
                   else TPM_NONCE_SIZE + 1 + TPM_HASH_SIZE)" by code_simp
  show ?thesis
    using C5_no_bounds_check [OF hdr tag d1 d2 d3 nz bad]
      C5_no_bounds_check [OF hdr' tag' d1 d2 d3 nz' bad']
    by simp
qed

text \<open>
  C5 as stated fails: the same two calls, as the source would be called, end in an
  out-of-bounds read, not in an error code.
\<close>

theorem C5_invalid_range_counterexample:
  "TSS_CheckHMAC toy_env (Some rsp_auth1) 0x17 (Some odd_nonce) (Some key_a) 3 None 0
     [VaU32 4, VaU32 100, VaU32 0] = Inl OutOfBounds
   \<and> TSS_CheckHMAC toy_env (Some rsp_auth1_short) 0x17 (Some odd_nonce) (Some key_a) 3 None 0
     [VaU32 0] = Inl OutOfBounds"
  by code_simp

section \<open>Dispatch on the tag and the null checks\<close>

lemma tag_noauth: "response_tag rsp_noauth = 0xC4"
  by (simp add: response_tag_def rsp_noauth_def slice_def TPM_U16_SIZE_def)
lemma tag_unknown: "response_tag rsp_unknown = 0xC1"
  by (simp add: response_tag_def rsp_unknown_def slice_def TPM_U16_SIZE_def)
lemma tag_auth2_short: "response_tag rsp_auth2_short = 0xC6"
  by (simp add: response_tag_def rsp_auth2_short_def slice_def TPM_U16_SIZE_def)

text \<open>
  C6 (amended). The result is dispatched on the tag decoded from the first two bytes of
  the response. For every response that holds its tag and size fields (six bytes) and
  whose tag is \<open>TPM_TAG_RSP_COMMAND\<close> (no authorization), the call returns
  \<open>TPM_SUCCESS\<close>, whatever the trailer, the other arguments and the variadic list are.
  For every such response whose tag is none of the three known tags, the call returns
  \<open>TPM_E_HMAC_FAIL\<close> when \<open>nonceOdd\<close> and \<open>key\<close> are not null.
\<close>

theorem C6_tag_dispatch:
  assumes "6 \<le> length resp"
  shows "(response_tag resp = TPM_TAG_RSP_COMMAND env \<longrightarrow>
            TSS_CheckHMAC env (Some resp) command nonceOdd key keySize key2 keySize2 argp
              = Inr TPM_SUCCESS)
       \<and> (response_tag resp \<noteq> TPM_TAG_RSP_COMMAND env
            \<and> response_tag resp \<noteq> TPM_TAG_RSP_AUTH1_COMMAND env
            \<and> response_tag resp \<noteq> TPM_TAG_RSP_AUTH2_COMMAND env
            \<and> nonceOdd \<noteq> None \<and> key \<noteq> None \<longrightarrow>
            TSS_CheckHMAC env (Some resp) command nonceOdd key keySize key2 keySize2 argp
              = Inr TPM_E_HMAC_FAIL)"
  by (simp add: check_hmac_tagged [OF assms] Let_def)

text \<open>
  The two cases at concrete responses.
\<close>

theorem C6_tag_dispatch_witness:
  "TSS_CheckHMAC toy_env (Some rsp_noauth) 0x17 None None 0 None 0 [] = Inr TPM_SUCCESS
   \<and> TSS_CheckHMAC toy_env (Some rsp_unknown) 0x17 (Some []) (Some []) 0 None 0 [] = Inr TPM_E_HMAC_FAIL"
proof -
  have l1: "6 \<le> length rsp_noauth" by (simp add: rsp_noauth_def)
  have l2: "6 \<le> length rsp_unknown" by (simp add: rsp_unknown_def)
  show ?thesis
    using C6_tag_dispatch [OF l1, where env = toy_env and command = "0x17" and nonceOdd = None
          and key = None and keySize = 0 and ?key2.0 = None and ?keySize2.0 = 0 and argp = "[]"]
      C6_tag_dispatch [OF l2, where env = toy_env and command = "0x17" and nonceOdd = "Some []"
          and key = "Some []" and keySize = 0 and ?key2.0 = None and ?keySize2.0 = 0 and argp = "[]"]
    by (simp add: tag_noauth tag_unknown toy_env_def)
qed

text \<open>
  C6 as stated fails: with an unknown tag and a null \<open>key\<close> the null check of line 52
  comes before the tag check of line 56, and the call returns \<open>TPM_E_NULL_ARG\<close>, not
  \<open>TPM_E_HMAC_FAIL\<close>.
\<close>

theorem C6_unknown_tag_null_key_counterexample:
  "response_tag rsp_unknown \<noteq> TPM_TAG_RSP_COMMAND toy_env
   \<and> response_tag rsp_unknown \<noteq> TPM_TAG_RSP_AUTH1_COMMAND toy_env
   \<and> response_tag rsp_unknown \<noteq> TPM_TAG_RSP_AUTH2_COMMAND toy_env
   \<and> TSS_CheckHMAC toy_env (Some rsp_unknown) 0x17 (Some (replicate 20 0)) None 0 None 0 [VaU32 0]
       = Inr TPM_E_NULL_ARG"
proof -
  have l2: "6 \<le> length rsp_unknown" by (simp add: rsp_unknown_def)
  show ?thesis
    by (simp add: check_hmac_tagged [OF l2] Let_def tag_unknown toy_env_def)
qed

text \<open>
  C7. For every response whose tag decodes to \<open>TPM_TAG_RSP_AUTH2_COMMAND\<close>, a call with a
  null \<open>key2\<close> returns \<open>TPM_E_NULL_ARG\<close>: the call is a return of that code, not a
  fault, for every \<open>nonceOdd\<close>, \<open>key\<close> (null or not) and variadic list.
\<close>

theorem C7_auth2_missing_key2:
  assumes "6 \<le> length resp"
    and "response_tag resp = TPM_TAG_RSP_AUTH2_COMMAND env"
    and "TPM_TAG_RSP_AUTH2_COMMAND env \<noteq> TPM_TAG_RSP_COMMAND env"
  shows "TSS_CheckHMAC env (Some resp) command nonceOdd key keySize None keySize2 argp
           = Inr TPM_E_NULL_ARG"
  using assms(2,3) by (simp add: check_hmac_tagged [OF assms(1)] Let_def)

text \<open>
  An AUTH2 response checked without a second key.
\<close>

theorem C7_auth2_missing_key2_witness:
  "TSS_CheckHMAC toy_env (Some rsp_auth2_short) 0x17 (Some (replicate 20 0)) (Some [1, 2, 3]) 3
     None 0 [VaU32 0] = Inr TPM_E_NULL_ARG"
proof -
  have l: "6 \<le> length rsp_auth2_short" by (simp add: rsp_auth2_short_def)
  have t: "response_tag rsp_auth2_short = TPM_TAG_RSP_AUTH2_COMMAND toy_env"
    by (simp add: tag_auth2_short toy_env_def)
  have d: "TPM_TAG_RSP_AUTH2_COMMAND toy_env \<noteq> TPM_TAG_RSP_COMMAND toy_env"
    by (simp add: toy_env_def)
  show ?thesis by (rule C7_auth2_missing_key2 [OF l t d])
qed

text \<open>
  C8 (amended). For every call with a response whose tag is not \<open>TPM_TAG_RSP_COMMAND\<close>, in
  which \<open>nonceOdd\<close> or \<open>key\<close> is null, the call returns \<open>TPM_E_NULL_ARG\<close>, whatever
  the tag is otherwise.
\<close>

theorem C8_null_argument:
  assumes "6 \<le> length resp"
    and "response_tag resp \<noteq> TPM_TAG_RSP_COMMAND env"
    and "nonceOdd = None \<or> key = None"
  shows "TSS_CheckHMAC env (Some resp) command nonceOdd key keySize key2 keySize2 argp
           = Inr TPM_E_NULL_ARG"
  using assms(2,3) by (auto simp add: check_hmac_tagged [OF assms(1)] Let_def)

text \<open>
  A null \<open>nonceOdd\<close> with an AUTH2 response.
\<close>

theorem C8_null_argument_witness:
  "TSS_CheckHMAC toy_env (Some rsp_auth2_short) 0x17 None (Some [1, 2, 3]) 3 None 0 [VaU32 0]
     = Inr TPM_E_NULL_ARG"
proof -
  have l: "6 \<le> length rsp_auth2_short" by (simp add: rsp_auth2_short_def)
  have t: "response_tag rsp_auth2_short \<noteq> TPM_TAG_RSP_COMMAND toy_env"
    by (simp add: tag_auth2_short toy_env_def)
  show ?thesis by (rule C8_null_argument [OF l t]) simp
qed

text \<open>
  C8 as stated fails: with the tag \<open>TPM_TAG_RSP_COMMAND\<close> and a null \<open>key\<close>, the return
  of line 50 is taken before the null check of line 52, and the call returns
  \<open>TPM_SUCCESS\<close>.
\<close>

theorem C8_noauth_null_key_counterexample:
  "response_tag rsp_noauth = TPM_TAG_RSP_COMMAND toy_env
   \<and> TSS_CheckHMAC toy_env (Some rsp_noauth) 0x17 (Some (replicate 20 0)) None 0 None 0 [VaU32 0]
       = Inr TPM_SUCCESS"
proof -
  have l: "6 \<le> length rsp_noauth" by (simp add: rsp_noauth_def)
  show ?thesis
    by (simp add: check_hmac_tagged [OF l] Let_def tag_noauth toy_env_def)
qed

text \<open>
  C9. The tag and the size are decoded, and the early return for \<open>TPM_TAG_RSP_COMMAND\<close>
  is taken, before the null check: a response with that tag gives \<open>TPM_SUCCESS\<close> also
  when \<open>nonceOdd\<close> or \<open>key\<close> is null, and a null \<open>response\<close> is read through (a
  null dereference) whatever the other arguments are, so the call never returns
  \<open>TPM_E_NULL_ARG\<close> for it.
\<close>

theorem C9_checks_after_decoding:
  "(6 \<le> length resp \<and> response_tag resp = TPM_TAG_RSP_COMMAND env \<and> (nonceOdd = None \<or> key = None)
      \<longrightarrow> TSS_CheckHMAC env (Some resp) command nonceOdd key keySize key2 keySize2 argp
            = Inr TPM_SUCCESS)
   \<and> TSS_CheckHMAC env None command nonceOdd key keySize key2 keySize2 argp = Inl NullDeref"
proof -
  have "TSS_CheckHMAC env None command nonceOdd key keySize key2 keySize2 argp = Inl NullDeref"
    by (simp add: TSS_CheckHMAC_def)
  moreover have "TSS_CheckHMAC env (Some resp) command nonceOdd key keySize key2 keySize2 argp
            = Inr TPM_SUCCESS"
    if "6 \<le> length resp" "response_tag resp = TPM_TAG_RSP_COMMAND env"
    using that(2) by (simp add: check_hmac_tagged [OF that(1)] Let_def)
  ultimately show ?thesis by blast
qed

text \<open>
  Both parts at concrete calls with null \<open>nonceOdd\<close> and \<open>key\<close>.
\<close>

theorem C9_checks_after_decoding_witness:
  "TSS_CheckHMAC toy_env (Some rsp_noauth) 0x17 None None 0 None 0 [VaU32 0] = Inr TPM_SUCCESS
   \<and> TSS_CheckHMAC toy_env None 0x17 None None 0 None 0 [VaU32 0] = Inl NullDeref"
proof -
  have l: "6 \<le> length rsp_noauth" by (simp add: rsp_noauth_def)
  have t: "response_tag rsp_noauth = TPM_TAG_RSP_COMMAND toy_env"
    by (simp add: tag_noauth toy_env_def)
  show ?thesis
    using C9_checks_after_decoding [where resp = rsp_noauth and env = toy_env and nonceOdd = None
        and key = None and command = "0x17" and keySize = 0 and ?key2.0 = None and ?keySize2.0 = 0
        and argp = "[VaU32 0]"] l t
    by simp
qed

section \<open>The command authenticator\<close>

text \<open>
  C2 (amended). For every call of \<open>TSS_AuthHMAC\<close> in which both nonces are not null
  and every selected datum before the sentinel has a data pointer that is not null, the
  call returns \<open>TPM_SUCCESS\<close> and writes to the start of the output buffer the digest
  HMAC(key) over the parameter digest, \<open>nonce1\<close> (the odd nonce), \<open>nonce2\<close> (the even
  nonce) and the continue-session byte, where the parameter digest is the plain hash of
  exactly the selected data in the order given, with no ordinal bytes before them. The
  other hypotheses are those under which the C code reads and writes inside its objects.
\<close>

theorem C2_command_auth_digest:
  assumes data: "list_all datum_ok ds"
    and key: "unat keySize \<le> length key"
    and n1: "TPM_NONCE_SIZE \<le> length nonce1"
    and n2: "TPM_NONCE_SIZE \<le> length nonce2"
    and d: "d = command_auth_digest env (take (unat keySize) key)
                  (take TPM_NONCE_SIZE nonce1) (take TPM_NONCE_SIZE nonce2) authBool
                  (selected_data ds)"
    and out: "length d \<le> length digest"
  shows "TSS_AuthHMAC env (Some digest) (Some key) keySize (Some nonce1) (Some nonce2) authBool
           (data_args ds @ VaU32 0 # rest)
         = Inr (TPM_SUCCESS, Some (d @ drop (length d) digest))"
proof -
  have r1: "read_bytes (Some nonce1) 0 TPM_NONCE_SIZE = Inr (take TPM_NONCE_SIZE nonce1)"
    using n1 read_bytes_at [of 0 0 nonce1 TPM_NONCE_SIZE] by (simp add: slice_def)
  have r2: "read_bytes (Some nonce2) 0 TPM_NONCE_SIZE = Inr (take TPM_NONCE_SIZE nonce2)"
    using n2 read_bytes_at [of 0 0 nonce2 TPM_NONCE_SIZE] by (simp add: slice_def)
  have w: "write_bytes (Some digest) d = Inr (d @ drop (length d) digest)"
    using out by (simp add: write_bytes_def)
  have fin: "hmac_finish env
       (sha1 env (selected_data ds) @ take TPM_NONCE_SIZE nonce1 @ take TPM_NONCE_SIZE nonce2 @ [authBool])
       (Some key) keySize = Inr d"
    using key by (simp add: hmac_finish_Some d command_auth_digest_def)
  show ?thesis
    unfolding TSS_AuthHMAC_def
    using key
    by (simp add: auth_args_loop_data [OF data] sha1_starts_def sha1_finish_def hmac_starts_Some
        hmac_update_def r1 r2 fin w Let_def)
qed

text \<open>
  A call with two data; with the two nonces exchanged the digest is another one.
\<close>

theorem C2_command_auth_digest_witness:
  "TSS_AuthHMAC toy_env (Some out_buf) (Some key_a) 3 (Some odd_nonce) (Some even_nonce) 1
     (data_args [(4, Some [1, 2, 3, 4, 5]), (2, Some [7, 7])] @ VaU32 0 # [])
     = Inr (TPM_SUCCESS, Some (replicate 20 57))
   \<and> TSS_AuthHMAC toy_env (Some out_buf) (Some key_a) 3 (Some even_nonce) (Some odd_nonce) 1
     (data_args [(4, Some [1, 2, 3, 4, 5]), (2, Some [7, 7])] @ VaU32 0 # [])
     = Inr (TPM_SUCCESS, Some (replicate 20 185))"
proof -
  have data: "list_all datum_ok [(4, Some [1, 2, 3, 4, 5]), (2, Some [7, 7])]" by code_simp
  have key: "unat (3 :: 32 word) \<le> length key_a" by (simp add: key_a_def)
  have n1: "TPM_NONCE_SIZE \<le> length odd_nonce" by (simp add: TPM_NONCE_SIZE_def odd_nonce_def)
  have n2: "TPM_NONCE_SIZE \<le> length even_nonce" by (simp add: TPM_NONCE_SIZE_def even_nonce_def)
  have d: "replicate 20 57 = command_auth_digest toy_env (take (unat (3 :: 32 word)) key_a)
                  (take TPM_NONCE_SIZE odd_nonce) (take TPM_NONCE_SIZE even_nonce) 1
                  (selected_data [(4, Some [1, 2, 3, 4, 5]), (2, Some [7, 7])])" by code_simp
  have d': "replicate 20 185 = command_auth_digest toy_env (take (unat (3 :: 32 word)) key_a)
                  (take TPM_NONCE_SIZE even_nonce) (take TPM_NONCE_SIZE odd_nonce) 1
                  (selected_data [(4, Some [1, 2, 3, 4, 5]), (2, Some [7, 7])])" by code_simp
  have out: "length (replicate 20 (57 :: byte)) \<le> length out_buf" by (simp add: out_buf_def)
  have out': "length (replicate 20 (185 :: byte)) \<le> length out_buf" by (simp add: out_buf_def)
  show ?thesis
    using C2_command_auth_digest [OF data key n1 n2 d out, where rest = "[]"]
      C2_command_auth_digest [OF data key n2 n1 d' out', where rest = "[]"]
    by (simp add: out_buf_def)
qed

text \<open>
  C2 as stated fails: both nonces are not null, and the call returns
  \<open>TPM_E_NULL_ARG\<close> and writes nothing, since a selected datum has a null pointer.
\<close>

theorem C2_null_data_pointer_counterexample:
  "TSS_AuthHMAC toy_env (Some out_buf) (Some key_a) 3 (Some odd_nonce) (Some even_nonce) 1
     [VaU32 4, VaPtr None, VaU32 0] = Inr (TPM_E_NULL_ARG, Some out_buf)"
  by code_simp

text \<open>
  C10. For every call of \<open>TSS_AuthHMAC\<close> with nonces that are not null, if an entry
  of the variadic list before the sentinel has a null data pointer (the entries before
  it being readable data), the call returns \<open>TPM_E_NULL_ARG\<close> and leaves the \<open>digest\<close>
  buffer as it was; no HMAC is computed: the result is the same for every primitive and
  every \<open>key\<close> and \<open>digest\<close> pointer, null or not.
\<close>

theorem C10_null_data_pointer:
  assumes "list_all datum_ok ds" and "arg_size \<noteq> 0"
  shows "TSS_AuthHMAC env digest key keySize (Some nonce1) (Some nonce2) authBool
           (data_args ds @ VaU32 arg_size # VaPtr None # rest)
         = Inr (TPM_E_NULL_ARG, digest)"
  unfolding TSS_AuthHMAC_def
  by (simp add: auth_args_loop_null [OF assms])

text \<open>
  A null data pointer after one datum, with a null \<open>key\<close>.
\<close>

theorem C10_null_data_pointer_witness:
  "TSS_AuthHMAC toy_env (Some out_buf) None 3 (Some odd_nonce) (Some even_nonce) 1
     (data_args [(2, Some [7, 7])] @ VaU32 4 # VaPtr None # [VaU32 0])
     = Inr (TPM_E_NULL_ARG, Some out_buf)"
proof -
  have data: "list_all datum_ok [(2, Some [7, 7])]" by code_simp
  have nz: "(4 :: 32 word) \<noteq> 0" by simp
  show ?thesis by (rule C10_null_data_pointer [OF data nz])
qed

end
